theory Spec2Isabelle
  imports Main "HOL-Library.Word"
begin

unbundle bit_operations_syntax

section \<open>Data model\<close>

text \<open>
  The repository is a Capacitor plugin with two native engines:
  \<^item> Android, class \<^verbatim>\<open>SecureStorage\<close> (Java, package
    \<^verbatim>\<open>io.revlabs.capacitor.securestorage\<close>): values are encrypted with AES/GCM/NoPadding
    under a master key held by the Android KeyStore; the IV and the cipher output are
    concatenated, Base64-encoded and kept in a SharedPreferences file;
  \<^item> iOS, class \<^verbatim>\<open>SecureStorage\<close> (\<^verbatim>\<open>ios/Sources/SecureStoragePlugin/SecureStorage.swift\<close>):
    values are kept as generic-password items of the Keychain, under one service identifier.
  Each engine sits behind a plugin class (\<^verbatim>\<open>SecureStoragePlugin\<close>, Java and Swift) that
  validates the arguments of a call and resolves or rejects it. The operations of the two
  engines have the same names; the model's names end in \<open>_android\<close> and \<open>_ios\<close>.

  The Java and Android libraries the engine calls (KeyStore, Cipher, Base64, the default
  charset) are not part of the repository: they are parameters of the model (record
  \<open>platform\<close>), and every exception they can throw is a value of type \<open>exn\<close>.
  The calls to \<^verbatim>\<open>Log.e\<close> are not modelled.
\<close>

type_synonym byte = "8 word"
type_synonym bytes = "byte list"

text \<open>A handle on a key of the KeyStore; the key material never leaves the KeyStore.\<close>

datatype SecretKey = KeyHandle nat

text \<open>
  The exceptions of the two multi-catch clauses of \<^verbatim>\<open>SecureStorage.java\<close>, and the
  unchecked ones its library calls can throw. \<open>AEADBadTagException\<close> is the subclass of
  \<open>BadPaddingException\<close> that a GCM cipher throws when the tag does not verify.
\<close>

datatype exn =
    KeyStoreException
  | NoSuchAlgorithmException
  | UnrecoverableEntryException
  | NoSuchPaddingException
  | InvalidKeyException
  | InvalidAlgorithmParameterException
  | BadPaddingException
  | AEADBadTagException
  | IllegalBlockSizeException
  | IllegalArgumentException
  | ArrayIndexOutOfBoundsException

record platform =
  getBytes :: "string \<Rightarrow> bytes"
    \<comment> \<open>\<^verbatim>\<open>value.getBytes()\<close>\<close>
  newString :: "bytes \<Rightarrow> string"
    \<comment> \<open>\<^verbatim>\<open>new String(decryptedBytes)\<close>\<close>
  Base64_encodeToString :: "bytes \<Rightarrow> string"
    \<comment> \<open>\<^verbatim>\<open>Base64.encodeToString(combined, Base64.DEFAULT)\<close>\<close>
  Base64_decode :: "string \<Rightarrow> exn + bytes"
    \<comment> \<open>\<^verbatim>\<open>Base64.decode(encryptedValue, Base64.DEFAULT)\<close>; bad input throws
        \<open>IllegalArgumentException\<close>\<close>
  Cipher_encrypt :: "SecretKey option \<Rightarrow> bytes \<Rightarrow> bytes \<Rightarrow> exn + bytes"
    \<comment> \<open>\<^verbatim>\<open>Cipher.getInstance\<close>, \<^verbatim>\<open>init(ENCRYPT_MODE, secretKey)\<close> and \<^verbatim>\<open>doFinal\<close>;
        the second argument is the IV that \<^verbatim>\<open>init\<close> drew and \<^verbatim>\<open>getIV()\<close> returns;
        the key is \<open>None\<close> when \<^verbatim>\<open>getKey\<close> returned \<^verbatim>\<open>null\<close>\<close>
  Cipher_decrypt :: "SecretKey option \<Rightarrow> bytes \<Rightarrow> bytes \<Rightarrow> exn + bytes"
    \<comment> \<open>\<^verbatim>\<open>Cipher.getInstance\<close>, \<^verbatim>\<open>init(DECRYPT_MODE, secretKey, spec)\<close> with the
        \<^verbatim>\<open>GCMParameterSpec(GCM_TAG_LENGTH, iv)\<close>, and \<^verbatim>\<open>doFinal\<close>\<close>

text \<open>
  The fields of the Java object after its constructor has run. \<open>keyStore\<close> is what
  \<^verbatim>\<open>keyStore.getKey(MASTER_KEY_ALIAS, null)\<close> does: it throws, or returns \<^verbatim>\<open>null\<close>
  (no entry under the alias, for instance because \<^verbatim>\<open>generateMasterKey\<close> failed and only
  logged it), or returns the master key. \<open>sharedPreferences\<close> is the in-memory map of the
  preferences file \<^verbatim>\<open>SECURE_STORAGE_PREFS\<close>.
\<close>

record SecureStorage =
  keyStore :: "exn + SecretKey option"
  sharedPreferences :: "string \<rightharpoonup> string"

definition GCM_IV_LENGTH :: nat where
  "GCM_IV_LENGTH = 12"

definition GCM_TAG_LENGTH :: nat where
  "GCM_TAG_LENGTH = 128"

section \<open>The Android engine\<close>

text \<open>
  Every operation returns its outcome (\<open>Inl e\<close>: the exception \<open>e\<close> leaves the method)
  and the object afterwards.
\<close>

type_synonym 'a outcome = "(exn + 'a) \<times> SecureStorage"

text \<open>\<^verbatim>\<open>remove\<close>: \<^verbatim>\<open>sharedPreferences.edit().remove(key).apply()\<close>.\<close>

definition remove_android :: "SecureStorage \<Rightarrow> string \<Rightarrow> unit outcome" where
  "remove_android this key =
     (Inr (), this\<lparr>sharedPreferences := (sharedPreferences this)(key := None)\<rparr>)"

text \<open>\<^verbatim>\<open>clear\<close>: \<^verbatim>\<open>sharedPreferences.edit().clear().apply()\<close>.\<close>

definition clear_android :: "SecureStorage \<Rightarrow> unit outcome" where
  "clear_android this = (Inr (), this\<lparr>sharedPreferences := Map.empty\<rparr>)"

text \<open>
  \<^verbatim>\<open>keys\<close>: the key set of \<^verbatim>\<open>sharedPreferences.getAll()\<close>, copied into an array whose
  order is that of the map's key set; the model returns the set.
\<close>

definition keys_android :: "SecureStorage \<Rightarrow> string set outcome" where
  "keys_android this = (Inr (dom (sharedPreferences this)), this)"

text \<open>The multi-catch clause of \<^verbatim>\<open>set\<close>.\<close>

fun set_catches :: "exn \<Rightarrow> bool" where
  "set_catches KeyStoreException = True"
| "set_catches NoSuchAlgorithmException = True"
| "set_catches UnrecoverableEntryException = True"
| "set_catches NoSuchPaddingException = True"
| "set_catches InvalidKeyException = True"
| "set_catches BadPaddingException = True"
| "set_catches AEADBadTagException = True"
| "set_catches IllegalBlockSizeException = True"
| "set_catches _ = False"

text \<open>The multi-catch clause of \<^verbatim>\<open>get\<close>.\<close>

fun get_catches :: "exn \<Rightarrow> bool" where
  "get_catches KeyStoreException = True"
| "get_catches NoSuchAlgorithmException = True"
| "get_catches UnrecoverableEntryException = True"
| "get_catches NoSuchPaddingException = True"
| "get_catches InvalidKeyException = True"
| "get_catches InvalidAlgorithmParameterException = True"
| "get_catches BadPaddingException = True"
| "get_catches AEADBadTagException = True"
| "get_catches IllegalBlockSizeException = True"
| "get_catches _ = False"

text \<open>
  The \<^verbatim>\<open>try\<close> block of \<^verbatim>\<open>set\<close> for a value that is not \<^verbatim>\<open>null\<close>: the preferences
  after \<^verbatim>\<open>putString\<close>, or the exception thrown before it. \<^verbatim>\<open>System.arraycopy\<close> of
  \<^verbatim>\<open>GCM_IV_LENGTH\<close> bytes out of \<^verbatim>\<open>iv\<close> throws when \<^verbatim>\<open>iv\<close> is shorter.
\<close>

definition set_try :: "platform \<Rightarrow> SecureStorage \<Rightarrow> string \<Rightarrow> string \<Rightarrow> bytes \<Rightarrow> exn + SecureStorage" where
  "set_try P this key v iv =
     (case keyStore this of
        Inl e \<Rightarrow> Inl e
      | Inr secretKey \<Rightarrow>
          (case Cipher_encrypt P secretKey iv (getBytes P v) of
             Inl e \<Rightarrow> Inl e
           | Inr encryptedBytes \<Rightarrow>
               if length iv < GCM_IV_LENGTH then Inl ArrayIndexOutOfBoundsException
               else
                 let combined = take GCM_IV_LENGTH iv @ encryptedBytes;
                     encryptedValue = Base64_encodeToString P combined
                 in Inr (this\<lparr>sharedPreferences := (sharedPreferences this)(key \<mapsto> encryptedValue)\<rparr>)))"

text \<open>
  \<^verbatim>\<open>set(key, value)\<close>; \<open>value = None\<close> is Java's \<^verbatim>\<open>null\<close>, and \<open>iv\<close> is the IV the
  cipher draws in this call. A caught exception is logged and the method returns normally.
\<close>

definition set_android :: "platform \<Rightarrow> SecureStorage \<Rightarrow> string \<Rightarrow> string option \<Rightarrow> bytes \<Rightarrow> unit outcome" where
  "set_android P this key value iv =
     (case value of
        None \<Rightarrow> remove_android this key
      | Some v \<Rightarrow>
          (case set_try P this key v iv of
             Inr this' \<Rightarrow> (Inr (), this')
           | Inl e \<Rightarrow> if set_catches e then (Inr (), this) else (Inl e, this)))"

text \<open>The \<^verbatim>\<open>try\<close> block of \<^verbatim>\<open>get\<close>: the returned value (\<open>None\<close> is \<^verbatim>\<open>null\<close>) or the exception.\<close>

definition get_try :: "platform \<Rightarrow> SecureStorage \<Rightarrow> string \<Rightarrow> exn + string option" where
  "get_try P this key =
     (case sharedPreferences this key of
        None \<Rightarrow> Inr None
      | Some encryptedValue \<Rightarrow>
          (case Base64_decode P encryptedValue of
             Inl e \<Rightarrow> Inl e
           | Inr combined \<Rightarrow>
               if length combined < GCM_IV_LENGTH then Inr None
               else
                 let iv = take GCM_IV_LENGTH combined;
                     encryptedBytes = drop GCM_IV_LENGTH combined
                 in (case keyStore this of
                       Inl e \<Rightarrow> Inl e
                     | Inr secretKey \<Rightarrow>
                         (case Cipher_decrypt P secretKey iv encryptedBytes of
                            Inl e \<Rightarrow> Inl e
                          | Inr decryptedBytes \<Rightarrow> Inr (Some (newString P decryptedBytes))))))"

text \<open>\<^verbatim>\<open>get(key)\<close>: a caught exception is logged and the method returns \<^verbatim>\<open>null\<close>.\<close>

definition get_android :: "platform \<Rightarrow> SecureStorage \<Rightarrow> string \<Rightarrow> string option outcome" where
  "get_android P this key =
     (case get_try P this key of
        Inr r \<Rightarrow> (Inr r, this)
      | Inl e \<Rightarrow> if get_catches e then (Inr None, this) else (Inl e, this))"

section \<open>The Android plugin class\<close>

text \<open>How a \<^verbatim>\<open>PluginCall\<close> ends: resolved, with or without data, or rejected with a message.\<close>

datatype call_result =
    Resolve
  | Resolve_value "string option"
  | Reject string

text \<open>
  \<^verbatim>\<open>SecureStoragePlugin.set\<close> (Java). \<open>key\<close> and \<open>value\<close> are what
  \<^verbatim>\<open>call.getString\<close> returns, \<open>None\<close> for \<^verbatim>\<open>null\<close>. The \<^verbatim>\<open>catch (Exception e)\<close>
  clause sees every exception that leaves the engine.
\<close>

definition plugin_set_android ::
  "platform \<Rightarrow> SecureStorage \<Rightarrow> string option \<Rightarrow> string option \<Rightarrow> bytes \<Rightarrow> call_result \<times> SecureStorage" where
  "plugin_set_android P implementation key value iv =
     (case key of
        None \<Rightarrow> (Reject ''Key string must be provided'', implementation)
      | Some k \<Rightarrow>
          (case value of
             None \<Rightarrow> (Reject ''Value string must be provided'', implementation)
           | Some v \<Rightarrow>
               (case set_android P implementation k (Some v) iv of
                  (Inr _, implementation') \<Rightarrow> (Resolve, implementation')
                | (Inl e, implementation') \<Rightarrow> (Reject ''Error storing value'', implementation'))))"

text \<open>\<^verbatim>\<open>SecureStoragePlugin.get\<close> (Java).\<close>

definition plugin_get_android ::
  "platform \<Rightarrow> SecureStorage \<Rightarrow> string option \<Rightarrow> call_result \<times> SecureStorage" where
  "plugin_get_android P implementation key =
     (case key of
        None \<Rightarrow> (Reject ''Key string must be provided'', implementation)
      | Some k \<Rightarrow>
          (case get_android P implementation k of
             (Inr value, implementation') \<Rightarrow> (Resolve_value value, implementation')
           | (Inl e, implementation') \<Rightarrow> (Reject ''Error retrieving value'', implementation')))"

section \<open>The iOS engine\<close>

text \<open>
  The Keychain Services calls are not part of the repository. The model keeps the
  generic-password items of the service \<^verbatim>\<open>SecureStoragePlugin\<close> as a map from the account
  (the storage key) to the item's data; every query of the source fixes \<^verbatim>\<open>kSecClass\<close>
  and \<^verbatim>\<open>kSecAttrService\<close>, and every item it adds has the same \<^verbatim>\<open>kSecAttrAccessible\<close>.
  The source tells apart \<open>errSecSuccess\<close>, \<open>errSecItemNotFound\<close> and everything else;
  \<open>errSecNotAvailable\<close> stands for every other status. Each call takes a flag of the
  environment: when it is \<open>True\<close> the Keychain fails the call and changes nothing.
\<close>

datatype OSStatus = errSecSuccess | errSecItemNotFound | errSecDuplicateItem | errSecNotAvailable

type_synonym Keychain = "string \<rightharpoonup> bytes"

text \<open>\<^verbatim>\<open>SecItemDelete\<close> with a query that names one account.\<close>

definition SecItemDelete :: "bool \<Rightarrow> Keychain \<Rightarrow> string \<Rightarrow> OSStatus \<times> Keychain" where
  "SecItemDelete fails kc account =
     (if fails then (errSecNotAvailable, kc)
      else case kc account of
             None \<Rightarrow> (errSecItemNotFound, kc)
           | Some _ \<Rightarrow> (errSecSuccess, kc(account := None)))"

text \<open>\<^verbatim>\<open>SecItemDelete\<close> with the query of \<^verbatim>\<open>clear\<close>, which matches every item of the service.\<close>

definition SecItemDelete_all :: "bool \<Rightarrow> Keychain \<Rightarrow> OSStatus \<times> Keychain" where
  "SecItemDelete_all fails kc =
     (if fails then (errSecNotAvailable, kc)
      else if kc = Map.empty then (errSecItemNotFound, kc)
      else (errSecSuccess, Map.empty))"

text \<open>\<^verbatim>\<open>SecItemAdd\<close>: an item with the same service and account is a duplicate.\<close>

definition SecItemAdd :: "bool \<Rightarrow> Keychain \<Rightarrow> string \<Rightarrow> bytes \<Rightarrow> OSStatus \<times> Keychain" where
  "SecItemAdd fails kc account valueData =
     (if fails then (errSecNotAvailable, kc)
      else case kc account of
             Some _ \<Rightarrow> (errSecDuplicateItem, kc)
           | None \<Rightarrow> (errSecSuccess, kc(account \<mapsto> valueData)))"

text \<open>\<^verbatim>\<open>SecItemCopyMatching\<close> with \<^verbatim>\<open>kSecReturnData\<close> and \<^verbatim>\<open>kSecMatchLimitOne\<close>.\<close>

definition SecItemCopyMatching :: "bool \<Rightarrow> Keychain \<Rightarrow> string \<Rightarrow> OSStatus \<times> bytes option" where
  "SecItemCopyMatching fails kc account =
     (if fails then (errSecNotAvailable, None)
      else case kc account of
             None \<Rightarrow> (errSecItemNotFound, None)
           | Some d \<Rightarrow> (errSecSuccess, Some d))"

text \<open>
  \<^verbatim>\<open>SecItemCopyMatching\<close> with \<^verbatim>\<open>kSecReturnAttributes\<close> and \<^verbatim>\<open>kSecMatchLimitAll\<close>: the
  accounts of the items found.
\<close>

definition SecItemCopyMatching_all :: "bool \<Rightarrow> Keychain \<Rightarrow> OSStatus \<times> string set" where
  "SecItemCopyMatching_all fails kc =
     (if fails then (errSecNotAvailable, {})
      else if kc = Map.empty then (errSecItemNotFound, {})
      else (errSecSuccess, dom kc))"

text \<open>The two conversions of Foundation the Swift engine uses; \<open>None\<close> is \<^verbatim>\<open>nil\<close>.\<close>

record foundation =
  data_utf8 :: "string \<Rightarrow> bytes option"
    \<comment> \<open>\<^verbatim>\<open>value.data(using: .utf8)\<close>\<close>
  String_utf8 :: "bytes \<Rightarrow> string option"
    \<comment> \<open>\<^verbatim>\<open>String(data: data, encoding: .utf8)\<close>\<close>

text \<open>
  \<^verbatim>\<open>set(_:value:)\<close>: the status of \<^verbatim>\<open>SecItemDelete\<close> is dropped, the status of
  \<^verbatim>\<open>SecItemAdd\<close> decides the result. \<open>fd\<close> and \<open>fa\<close> are the flags of the two calls.
\<close>

definition set_ios :: "foundation \<Rightarrow> Keychain \<Rightarrow> string \<Rightarrow> string \<Rightarrow> bool \<Rightarrow> bool \<Rightarrow> bool \<times> Keychain" where
  "set_ios F kc key value fd fa =
     (case data_utf8 F value of
        None \<Rightarrow> (False, kc)
      | Some valueData \<Rightarrow>
          let (_, kc1) = SecItemDelete fd kc key;
              (status, kc2) = SecItemAdd fa kc1 key valueData
          in (status = errSecSuccess, kc2))"

text \<open>\<^verbatim>\<open>get(_:)\<close>.\<close>

definition get_ios :: "foundation \<Rightarrow> Keychain \<Rightarrow> string \<Rightarrow> bool \<Rightarrow> string option \<times> Keychain" where
  "get_ios F kc key fc =
     (let (status, dataTypeRef) = SecItemCopyMatching fc kc key
      in if status = errSecSuccess
         then (case dataTypeRef of Some d \<Rightarrow> (String_utf8 F d, kc) | None \<Rightarrow> (None, kc))
         else (None, kc))"

text \<open>\<^verbatim>\<open>remove(_:)\<close>.\<close>

definition remove_ios :: "Keychain \<Rightarrow> string \<Rightarrow> bool \<Rightarrow> bool \<times> Keychain" where
  "remove_ios kc key fd =
     (let (status, kc') = SecItemDelete fd kc key
      in (status = errSecSuccess \<or> status = errSecItemNotFound, kc'))"

text \<open>\<^verbatim>\<open>clear()\<close>.\<close>

definition clear_ios :: "Keychain \<Rightarrow> bool \<Rightarrow> bool \<times> Keychain" where
  "clear_ios kc fd =
     (let (status, kc') = SecItemDelete_all fd kc
      in (status = errSecSuccess \<or> status = errSecItemNotFound, kc'))"

text \<open>\<^verbatim>\<open>keys()\<close>: the accounts found, none when the status is not \<open>errSecSuccess\<close>.\<close>

definition keys_ios :: "Keychain \<Rightarrow> bool \<Rightarrow> string set \<times> Keychain" where
  "keys_ios kc fc =
     (let (status, accounts) = SecItemCopyMatching_all fc kc
      in if status = errSecSuccess then (accounts, kc) else ({}, kc))"

text \<open>\<^verbatim>\<open>SecureStoragePlugin.set\<close> (Swift).\<close>

definition plugin_set_ios ::
  "foundation \<Rightarrow> Keychain \<Rightarrow> string option \<Rightarrow> string option \<Rightarrow> bool \<Rightarrow> bool \<Rightarrow> call_result \<times> Keychain" where
  "plugin_set_ios F kc key value fd fa =
     (case key of
        None \<Rightarrow> (Reject ''Key string must be provided'', kc)
      | Some k \<Rightarrow>
          (case value of
             None \<Rightarrow> (Reject ''Value string must be provided'', kc)
           | Some v \<Rightarrow>
               (case set_ios F kc k v fd fa of
                  (True, kc') \<Rightarrow> (Resolve, kc')
                | (False, kc') \<Rightarrow> (Reject ''Failed to store value'', kc'))))"

section \<open>A reference platform\<close>

text \<open>
  The theorems below hold for every platform; their hypotheses say what the platform has to
  do at the values concerned. To run the model, this section gives one executable platform
  of the same shape: a single-byte charset (it agrees with UTF-8 on ASCII), Base64 as in
  RFC 4648 with the line breaks of \<^verbatim>\<open>Base64.DEFAULT\<close> (a line feed after every 76
  characters and at the end), and a stand-in for AES/GCM/NoPadding whose output is, as
  there, a ciphertext of the plaintext's length followed by a tag of 16 bytes, and whose
  decryption throws \<open>AEADBadTagException\<close> when the tag does not fit. The stand-in has no
  cryptographic strength.
\<close>

definition ref_getBytes :: "string \<Rightarrow> bytes" where
  "ref_getBytes s = map of_char s"

definition ref_newString :: "bytes \<Rightarrow> string" where
  "ref_newString bs = map (\<lambda>b. char_of (unat b)) bs"

definition base64_alphabet :: string where
  "base64_alphabet = ''ABCDEFGHIJKLMNOPQRSTUVWXYZabcdefghijklmnopqrstuvwxyz0123456789+/''"

definition sextet_char :: "byte \<Rightarrow> char" where
  "sextet_char x = base64_alphabet ! unat (x AND 63)"

fun base64_groups :: "bytes \<Rightarrow> string" where
  "base64_groups [] = []"
| "base64_groups [a] =
     [sextet_char (drop_bit 2 a), sextet_char (push_bit 4 a), CHR ''='', CHR ''='']"
| "base64_groups [a, b] =
     [sextet_char (drop_bit 2 a), sextet_char (push_bit 4 a OR drop_bit 4 b),
      sextet_char (push_bit 2 b), CHR ''='']"
| "base64_groups (a # b # c # rest) =
     [sextet_char (drop_bit 2 a), sextet_char (push_bit 4 a OR drop_bit 4 b),
      sextet_char (push_bit 2 b OR drop_bit 6 c), sextet_char c] @ base64_groups rest"

fun base64_lines :: "string \<Rightarrow> string" where
  "base64_lines [] = []"
| "base64_lines (c # cs) = take 76 (c # cs) @ [CHR 0x0A] @ base64_lines (drop 75 cs)"

definition ref_encodeToString :: "bytes \<Rightarrow> string" where
  "ref_encodeToString bs = base64_lines (base64_groups bs)"

definition char_sextet :: "char \<Rightarrow> byte option" where
  "char_sextet c = map_of (zip base64_alphabet (map of_nat [0..<64])) c"

fun base64_ungroups :: "string \<Rightarrow> exn + bytes" where
  "base64_ungroups [] = Inr []"
| "base64_ungroups (w # x # y # z # rest) =
     (case (char_sextet w, char_sextet x) of
        (Some p, Some q) \<Rightarrow>
          (if y = CHR ''='' \<and> z = CHR ''='' \<and> rest = [] then Inr [push_bit 2 p OR drop_bit 4 q]
           else case char_sextet y of
             None \<Rightarrow> Inl IllegalArgumentException
           | Some r \<Rightarrow>
               (if z = CHR ''='' \<and> rest = []
                then Inr [push_bit 2 p OR drop_bit 4 q, push_bit 4 q OR drop_bit 2 r]
                else case char_sextet z of
                  None \<Rightarrow> Inl IllegalArgumentException
                | Some s \<Rightarrow>
                    (case base64_ungroups rest of
                       Inl e \<Rightarrow> Inl e
                     | Inr bs \<Rightarrow>
                         Inr ((push_bit 2 p OR drop_bit 4 q) # (push_bit 4 q OR drop_bit 2 r)
                              # (push_bit 6 r OR s) # bs))))
      | _ \<Rightarrow> Inl IllegalArgumentException)"
| "base64_ungroups _ = Inl IllegalArgumentException"

definition ref_decode :: "string \<Rightarrow> exn + bytes" where
  "ref_decode s = base64_ungroups (filter (\<lambda>c. c \<noteq> CHR 0x0A) s)"

definition ref_mask :: "nat \<Rightarrow> bytes \<Rightarrow> byte" where
  "ref_mask n iv = fold (XOR) iv (of_nat n)"

definition ref_tag :: "nat \<Rightarrow> bytes \<Rightarrow> bytes \<Rightarrow> bytes" where
  "ref_tag n iv c = map (\<lambda>i. fold (+) c (ref_mask n iv) + of_nat i) [0..<16]"

fun ref_encrypt :: "SecretKey option \<Rightarrow> bytes \<Rightarrow> bytes \<Rightarrow> exn + bytes" where
  "ref_encrypt None iv pt = Inl InvalidKeyException"
| "ref_encrypt (Some (KeyHandle n)) iv pt =
     (let c = map (\<lambda>b. b XOR ref_mask n iv) pt in Inr (c @ ref_tag n iv c))"

fun ref_decrypt :: "SecretKey option \<Rightarrow> bytes \<Rightarrow> bytes \<Rightarrow> exn + bytes" where
  "ref_decrypt None iv ct = Inl InvalidKeyException"
| "ref_decrypt (Some (KeyHandle n)) iv ct =
     (if length ct < 16 then Inl AEADBadTagException
      else
        let c = take (length ct - 16) ct; t = drop (length ct - 16) ct
        in if t = ref_tag n iv c then Inr (map (\<lambda>b. b XOR ref_mask n iv) c)
           else Inl AEADBadTagException)"

definition ref_platform :: platform where
  "ref_platform =
     \<lparr> getBytes = ref_getBytes, newString = ref_newString,
       Base64_encodeToString = ref_encodeToString, Base64_decode = ref_decode,
       Cipher_encrypt = ref_encrypt, Cipher_decrypt = ref_decrypt \<rparr>"

definition ref_foundation :: foundation where
  "ref_foundation =
     \<lparr> data_utf8 = (\<lambda>s. Some (ref_getBytes s)), String_utf8 = (\<lambda>d. Some (ref_newString d)) \<rparr>"

text \<open>Two IVs of twelve bytes, and an object whose KeyStore holds the master key.\<close>

definition iv_a :: bytes where
  "iv_a = [1, 2, 3, 4, 5, 6, 7, 8, 9, 10, 11, 12]"

definition iv_b :: bytes where
  "iv_b = [21, 22, 23, 24, 25, 26, 27, 28, 29, 30, 31, 32]"

definition fresh_storage :: SecureStorage where
  "fresh_storage = \<lparr> keyStore = Inr (Some (KeyHandle 7)), sharedPreferences = Map.empty \<rparr>"

text \<open>
  An object whose entry \<open>token\<close> is the blob that \<open>set\<close> writes for the value \<open>abc123\<close>
  under \<open>iv_a\<close> on the reference platform, with the last byte of the tag changed from 0 to 1.
\<close>

definition tampered_storage :: SecureStorage where
  "tampered_storage =
     \<lparr> keyStore = Inr (Some (KeyHandle 7)),
       sharedPreferences =
         [''token'' \<mapsto> ''AQIDBAUGBwgJCgsMamloOjk48fLz9PX29/j5+vv8/f7/AQ==\<newline>''] \<rparr>"

text \<open>An object with a blob of 3 bytes under \<open>token\<close> and a blob of 16 bytes under \<open>other\<close>.\<close>

definition short_storage :: SecureStorage where
  "short_storage =
     \<lparr> keyStore = Inr (Some (KeyHandle 7)),
       sharedPreferences =
         [''token'' \<mapsto> ''AQID\<newline>'', ''other'' \<mapsto> ''AQIDBAUGBwgJCgsMDQ4PEA==\<newline>''] \<rparr>"

text \<open>An object whose KeyStore has no entry under the alias of the master key.\<close>

definition keyless_storage :: SecureStorage where
  "keyless_storage = \<lparr> keyStore = Inr None, sharedPreferences = Map.empty \<rparr>"

text \<open>
  The default charset of Android is UTF-8. A Java string is a sequence of UTF-16 code
  units; the model writes a string as the bytes of its UTF-8 form, and a code unit that is
  an unpaired surrogate as the three bytes \<open>ED\<close>, \<open>A0..BF\<close>, \<open>80..BF\<close> that the same scheme
  gives it. \<^verbatim>\<open>String.getBytes()\<close> cannot encode an unpaired surrogate and puts the byte
  \<open>3F\<close> (a question mark) in its place; \<open>utf8_platform\<close> is the reference platform with
  this behaviour of \<^verbatim>\<open>getBytes\<close>.
\<close>

fun utf8_getBytes :: "string \<Rightarrow> bytes" where
  "utf8_getBytes (a # b # c # rest) =
     (if a = CHR 0xED \<and> (0xA0 :: nat) \<le> of_char b \<and> of_char b \<le> (0xBF :: nat)
         \<and> (0x80 :: nat) \<le> of_char c \<and> of_char c \<le> (0xBF :: nat)
      then 0x3F # utf8_getBytes rest
      else of_char a # utf8_getBytes (b # c # rest))"
| "utf8_getBytes (a # rest) = of_char a # utf8_getBytes rest"
| "utf8_getBytes [] = []"

definition utf8_platform :: platform where
  "utf8_platform = ref_platform\<lparr>getBytes := utf8_getBytes\<rparr>"

section \<open>Facts shared by the claims\<close>

lemma set_android_stores:
  assumes "keyStore this = Inr secretKey"
    and "Cipher_encrypt P secretKey iv (getBytes P v) = Inr c"
    and "GCM_IV_LENGTH \<le> length iv"
  shows "set_android P this k (Some v) iv =
           (Inr (), this\<lparr>sharedPreferences :=
              (sharedPreferences this)(k \<mapsto> Base64_encodeToString P (take GCM_IV_LENGTH iv @ c))\<rparr>)"
  using assms by (simp add: set_android_def set_try_def)

lemma get_android_decrypts:
  assumes "sharedPreferences this k = Some b"
    and "Base64_decode P b = Inr combined"
    and "GCM_IV_LENGTH \<le> length combined"
    and "keyStore this = Inr secretKey"
    and "Cipher_decrypt P secretKey (take GCM_IV_LENGTH combined) (drop GCM_IV_LENGTH combined) = Inr d"
  shows "get_android P this k = (Inr (Some (newString P d)), this)"
  using assms by (simp add: get_android_def get_try_def)

lemma get_android_caught:
  assumes "sharedPreferences this k = Some b"
    and "Base64_decode P b = Inr combined"
    and "GCM_IV_LENGTH \<le> length combined"
    and "keyStore this = Inr secretKey"
    and "Cipher_decrypt P secretKey (take GCM_IV_LENGTH combined) (drop GCM_IV_LENGTH combined) = Inl e"
    and "get_catches e"
  shows "get_android P this k = (Inr None, this)"
  using assms by (simp add: get_android_def get_try_def)

lemma get_android_readonly: "snd (get_android P this k) = this"
  by (simp add: get_android_def split: sum.splits)

lemma plugin_get_android_null:
  assumes "get_android P this k = (Inr None, this)"
  shows "plugin_get_android P this (Some k) = (Resolve_value None, this)"
  using assms by (simp add: plugin_get_android_def)


lemma set_ios_success:
  assumes "fst (set_ios F kc k v fd fa)"
  shows "\<exists>d. data_utf8 F v = Some d \<and> snd (set_ios F kc k v fd fa) = kc(k \<mapsto> d)"
  using assms
  by (auto simp: set_ios_def SecItemDelete_def SecItemAdd_def split: option.splits if_splits)


section \<open>C1: a value that was set is the value that is read\<close>

text \<open>
  C1, as the code has it. For every key \<open>k\<close> and every value \<open>v\<close> that the platform's
  charset reads back from its own bytes (\<^verbatim>\<open>new String(v.getBytes())\<close> is \<open>v\<close>), the empty
  string among them, \<open>set(k, v)\<close> followed by \<open>get(k)\<close> returns \<open>v\<close>. On Android this holds
  when the KeyStore returns the master key, the IV has twelve bytes, and the platform undoes
  at these values what it did: Base64 decodes what it encoded and the cipher decrypts under
  the same key and IV what it encrypted. On iOS it holds when \<open>set\<close> returned \<open>true\<close>, the
  Keychain answers the read, and the UTF-8 data of \<open>v\<close> reads back as \<open>v\<close>.
\<close>

theorem set_then_get_returns_value:
  assumes "keyStore this = Inr secretKey"
    and "length iv = GCM_IV_LENGTH"
    and "Cipher_encrypt P secretKey iv (getBytes P v) = Inr c"
    and "Base64_decode P (Base64_encodeToString P (iv @ c)) = Inr (iv @ c)"
    and "Cipher_decrypt P secretKey iv c = Inr (getBytes P v)"
    and "newString P (getBytes P v) = v"
    and "fst (set_ios F kc k v fd fa)"
    and "data_utf8 F v = Some d"
    and "String_utf8 F d = Some v"
  shows "fst (set_android P this k (Some v) iv) = Inr ()
       \<and> fst (get_android P (snd (set_android P this k (Some v) iv)) k) = Inr (Some v)
       \<and> fst (get_ios F (snd (set_ios F kc k v fd fa)) k False) = Some v"
proof -
  let ?b = "Base64_encodeToString P (iv @ c)"
  let ?this' = "this\<lparr>sharedPreferences := (sharedPreferences this)(k \<mapsto> ?b)\<rparr>"
  have stored: "set_android P this k (Some v) iv = (Inr (), ?this')"
    using set_android_stores [OF assms(1) assms(3), of k] assms(2) by simp
  have "get_android P ?this' k = (Inr (Some (newString P (getBytes P v))), ?this')"
    by (rule get_android_decrypts [where b = ?b and combined = "iv @ c" and secretKey = secretKey])
       (use assms in simp_all)
  then have read: "fst (get_android P ?this' k) = Inr (Some v)"
    using assms(6) by simp
  have item: "snd (set_ios F kc k v fd fa) = kc(k \<mapsto> d)"
    using set_ios_success [OF assms(7)] assms(8) by auto
  have "fst (get_ios F (kc(k \<mapsto> d)) k False) = Some v"
    using assms(9) by (simp add: get_ios_def SecItemCopyMatching_def)
  with stored read item show ?thesis by simp
qed

text \<open>The value \<open>abc123\<close> and the empty string on the reference platform.\<close>

theorem set_then_get_returns_value_witness:
  "fst (get_android ref_platform
          (snd (set_android ref_platform fresh_storage ''token'' (Some ''abc123'') iv_a)) ''token'')
     = Inr (Some ''abc123'')
   \<and> fst (get_ios ref_foundation
          (snd (set_ios ref_foundation Map.empty ''token'' ''abc123'' False False)) ''token'' False)
     = Some ''abc123''
   \<and> fst (get_android ref_platform
          (snd (set_android ref_platform fresh_storage ''token'' (Some '''') iv_a)) ''token'')
     = Inr (Some '''')
   \<and> fst (get_ios ref_foundation
          (snd (set_ios ref_foundation Map.empty ''token'' '''' False False)) ''token'' False)
     = Some ''''"
proof -
  let ?c = "[106, 105, 104, 58, 57, 56, 241, 242, 243, 244, 245, 246, 247, 248,
             249, 250, 251, 252, 253, 254, 255, 0] :: bytes"
  let ?e = "[11, 12, 13, 14, 15, 16, 17, 18, 19, 20, 21, 22, 23, 24, 25, 26] :: bytes"
  have key: "keyStore fresh_storage = Inr (Some (KeyHandle 7))"
    by (simp add: fresh_storage_def)
  have len: "length iv_a = GCM_IV_LENGTH"
    by (simp add: iv_a_def GCM_IV_LENGTH_def)
  have enc: "Cipher_encrypt ref_platform (Some (KeyHandle 7)) iv_a (getBytes ref_platform ''abc123'') = Inr ?c"
    by code_simp
  have b64: "Base64_decode ref_platform (Base64_encodeToString ref_platform (iv_a @ ?c)) = Inr (iv_a @ ?c)"
    by code_simp
  have dec: "Cipher_decrypt ref_platform (Some (KeyHandle 7)) iv_a ?c = Inr (getBytes ref_platform ''abc123'')"
    by code_simp
  have str: "newString ref_platform (getBytes ref_platform ''abc123'') = ''abc123''"
    by code_simp
  have added: "fst (set_ios ref_foundation Map.empty ''token'' ''abc123'' False False)"
    by code_simp
  have dat: "data_utf8 ref_foundation ''abc123'' = Some (ref_getBytes ''abc123'')"
    by (simp add: ref_foundation_def)
  have rd: "String_utf8 ref_foundation (ref_getBytes ''abc123'') = Some ''abc123''"
    by code_simp
  have enc': "Cipher_encrypt ref_platform (Some (KeyHandle 7)) iv_a (getBytes ref_platform '''') = Inr ?e"
    by code_simp
  have b64': "Base64_decode ref_platform (Base64_encodeToString ref_platform (iv_a @ ?e)) = Inr (iv_a @ ?e)"
    by code_simp
  have dec': "Cipher_decrypt ref_platform (Some (KeyHandle 7)) iv_a ?e = Inr (getBytes ref_platform '''')"
    by code_simp
  have str': "newString ref_platform (getBytes ref_platform '''') = ''''"
    by code_simp
  have added': "fst (set_ios ref_foundation Map.empty ''token'' '''' False False)"
    by code_simp
  have dat': "data_utf8 ref_foundation '''' = Some (ref_getBytes '''')"
    by (simp add: ref_foundation_def)
  have rd': "String_utf8 ref_foundation (ref_getBytes '''') = Some ''''"
    by code_simp
  from set_then_get_returns_value [OF key len enc b64 dec str added dat rd]
       set_then_get_returns_value [OF key len enc' b64' dec' str' added' dat' rd']
  show ?thesis by blast
qed

text \<open>
  The claim as stated, for every string, fails on a value with an unpaired surrogate (the
  code unit \<open>D800\<close>, written \<open>ED A0 80\<close>): \<^verbatim>\<open>getBytes\<close> turns it into a question mark,
  \<open>set\<close> encrypts and stores that, and \<open>get\<close> decodes, decrypts and returns the string
  \<open>?\<close>, which is not the value that was set. Every other step works: the KeyStore returns
  the key, \<open>set\<close> returns normally and the blob decrypts.
\<close>

theorem set_then_get_surrogate_counterexample:
  "getBytes utf8_platform [CHR 0xED, CHR 0xA0, CHR 0x80] = [0x3F]
   \<and> fst (set_android utf8_platform fresh_storage ''token''
             (Some [CHR 0xED, CHR 0xA0, CHR 0x80]) iv_a) = Inr ()
   \<and> fst (get_android utf8_platform
             (snd (set_android utf8_platform fresh_storage ''token''
                     (Some [CHR 0xED, CHR 0xA0, CHR 0x80]) iv_a)) ''token'')
       = Inr (Some ''?'')
   \<and> [CHR 0xED, CHR 0xA0, CHR 0x80] \<noteq> ''?''"
  by code_simp

section \<open>C2: an absent key and a rejected blob\<close>

text \<open>
  A blob that Base64 cannot decode is the one kind of damage that does surface: the
  \<open>IllegalArgumentException\<close> of \<^verbatim>\<open>Base64.decode\<close> is not in the catch clause of \<open>get\<close>,
  leaves the engine and makes the plugin reject the call.
\<close>

lemma get_android_bad_base64:
  assumes "sharedPreferences this k = Some b"
    and "Base64_decode P b = Inl IllegalArgumentException"
  shows "get_android P this k = (Inl IllegalArgumentException, this)"
    and "plugin_get_android P this (Some k) = (Reject ''Error retrieving value'', this)"
  using assms by (simp_all add: plugin_get_android_def get_android_def get_try_def)

text \<open>
  C2, as the code has it. \<open>get\<close> on a key that has no entry returns \<^verbatim>\<open>null\<close> and raises
  nothing. \<open>get\<close> on a key whose blob the cipher rejects with \<open>AEADBadTagException\<close> (the
  tag does not verify) returns \<^verbatim>\<open>null\<close> and raises nothing either: the exception is
  caught inside \<open>get\<close>, as its documentation says (\<^verbatim>\<open>null if not found or decryption fails\<close>).
  The plugin resolves both calls with the value \<^verbatim>\<open>null\<close>, so the caller cannot tell the two
  apart.
\<close>

theorem get_absent_or_rejected_is_null:
  "(sharedPreferences this k = None \<longrightarrow>
      get_android P this k = (Inr None, this)
      \<and> plugin_get_android P this (Some k) = (Resolve_value None, this))
   \<and> (sharedPreferences this k = Some b \<and> Base64_decode P b = Inr combined
        \<and> GCM_IV_LENGTH \<le> length combined \<and> keyStore this = Inr secretKey
        \<and> Cipher_decrypt P secretKey (take GCM_IV_LENGTH combined) (drop GCM_IV_LENGTH combined)
            = Inl AEADBadTagException \<longrightarrow>
      get_android P this k = (Inr None, this)
      \<and> plugin_get_android P this (Some k) = (Resolve_value None, this))"
proof -
  have absent: "get_android P this k = (Inr None, this)" if "sharedPreferences this k = None"
    using that by (simp add: get_android_def get_try_def)
  have rejected: "get_android P this k = (Inr None, this)"
    if "sharedPreferences this k = Some b" "Base64_decode P b = Inr combined"
       "GCM_IV_LENGTH \<le> length combined" "keyStore this = Inr secretKey"
       "Cipher_decrypt P secretKey (take GCM_IV_LENGTH combined) (drop GCM_IV_LENGTH combined)
          = Inl AEADBadTagException"
    using that by (rule get_android_caught) simp
  from absent rejected plugin_get_android_null [of P this k] show ?thesis by blast
qed

text \<open>
  The key \<open>never set\<close> has no entry in \<open>tampered_storage\<close>; the key \<open>token\<close> has the blob
  with the changed tag.
\<close>

theorem get_absent_or_rejected_is_null_witness:
  "get_android ref_platform tampered_storage ''never set'' = (Inr None, tampered_storage)
   \<and> plugin_get_android ref_platform tampered_storage (Some ''never set'')
       = (Resolve_value None, tampered_storage)
   \<and> get_android ref_platform tampered_storage ''token'' = (Inr None, tampered_storage)
   \<and> plugin_get_android ref_platform tampered_storage (Some ''token'')
       = (Resolve_value None, tampered_storage)"
proof -
  let ?b = "''AQIDBAUGBwgJCgsMamloOjk48fLz9PX29/j5+vv8/f7/AQ==\<newline>''"
  let ?combined = "[1, 2, 3, 4, 5, 6, 7, 8, 9, 10, 11, 12,
                    106, 105, 104, 58, 57, 56, 241, 242, 243, 244, 245, 246, 247, 248,
                    249, 250, 251, 252, 253, 254, 255, 1] :: bytes"
  have none: "sharedPreferences tampered_storage ''never set'' = None"
    by (simp add: tampered_storage_def)
  have some: "sharedPreferences tampered_storage ''token'' = Some ?b"
    by (simp add: tampered_storage_def)
  have b64: "Base64_decode ref_platform ?b = Inr ?combined"
    by code_simp
  have len: "GCM_IV_LENGTH \<le> length ?combined"
    by (simp add: GCM_IV_LENGTH_def)
  have key: "keyStore tampered_storage = Inr (Some (KeyHandle 7))"
    by (simp add: tampered_storage_def)
  have dec: "Cipher_decrypt ref_platform (Some (KeyHandle 7))
               (take GCM_IV_LENGTH ?combined) (drop GCM_IV_LENGTH ?combined) = Inl AEADBadTagException"
    by code_simp
  from get_absent_or_rejected_is_null
         [where this = tampered_storage and k = "''never set''" and P = ref_platform] none
       get_absent_or_rejected_is_null
         [where this = tampered_storage and k = "''token''" and P = ref_platform and b = ?b
            and combined = ?combined and secretKey = "Some (KeyHandle 7)"] some b64 len key dec
  show ?thesis by blast
qed

text \<open>
  The claim as stated fails on \<open>tampered_storage\<close>: the blob under \<open>token\<close> decodes, the
  cipher rejects it because the tag does not fit, and \<open>get\<close> returns \<^verbatim>\<open>null\<close> without an
  error, which is also what it returns for the key \<open>never set\<close>.
\<close>

theorem get_tampered_returns_null_counterexample:
  "Base64_decode ref_platform ''AQIDBAUGBwgJCgsMamloOjk48fLz9PX29/j5+vv8/f7/AQ==\<newline>''
     = Inr ([1, 2, 3, 4, 5, 6, 7, 8, 9, 10, 11, 12] @
            [106, 105, 104, 58, 57, 56, 241, 242, 243, 244, 245, 246, 247, 248,
             249, 250, 251, 252, 253, 254, 255, 1])
   \<and> Cipher_decrypt ref_platform (Some (KeyHandle 7)) [1, 2, 3, 4, 5, 6, 7, 8, 9, 10, 11, 12]
        [106, 105, 104, 58, 57, 56, 241, 242, 243, 244, 245, 246, 247, 248,
         249, 250, 251, 252, 253, 254, 255, 1] = Inl AEADBadTagException
   \<and> fst (get_android ref_platform tampered_storage ''token'') = Inr None
   \<and> fst (plugin_get_android ref_platform tampered_storage (Some ''token'')) = Resolve_value None
   \<and> fst (get_android ref_platform tampered_storage ''never set'') = Inr None"
  by code_simp

section \<open>C3: a failed set on Android\<close>

text \<open>
  Whatever the platform, an exception of the catch clause of \<open>set\<close> that is thrown by the
  KeyStore or by the cipher never reaches the plugin: the call is resolved and the object
  is unchanged.
\<close>

lemma plugin_set_android_swallows:
  assumes "keyStore this = Inl e
           \<or> (\<exists>secretKey. keyStore this = Inr secretKey
                 \<and> Cipher_encrypt P secretKey iv (getBytes P v) = Inl e)"
    and "set_catches e"
  shows "plugin_set_android P this (Some k) (Some v) iv = (Resolve, this)"
  using assms by (auto simp: plugin_set_android_def set_android_def set_try_def)

text \<open>
  C3. A \<open>set\<close> whose encryption fails should reject the call. On Android it does not: with
  no master key in the KeyStore the cipher throws \<open>InvalidKeyException\<close>, the engine's
  \<open>set\<close> catches it and returns, and the plugin resolves the call although nothing was
  stored (a following \<open>get\<close> returns \<^verbatim>\<open>null\<close>). The iOS plugin rejects a failed \<open>set\<close> with
  the message \<^verbatim>\<open>Failed to store value\<close>.
\<close>

theorem android_set_failure_resolves:
  "Cipher_encrypt ref_platform None iv_a (getBytes ref_platform ''abc123'') = Inl InvalidKeyException
   \<and> plugin_set_android ref_platform keyless_storage (Some ''token'') (Some ''abc123'') iv_a
       = (Resolve, keyless_storage)
   \<and> fst (get_android ref_platform keyless_storage ''token'') = Inr None
   \<and> plugin_set_ios ref_foundation Map.empty (Some ''token'') (Some ''abc123'') False True
       = (Reject ''Failed to store value'', Map.empty)"
  by (simp add: plugin_set_android_def set_android_def set_try_def keyless_storage_def
      ref_platform_def get_android_def get_try_def plugin_set_ios_def set_ios_def
      ref_foundation_def SecItemDelete_def SecItemAdd_def)

section \<open>C4: a blob shorter than nonce and tag\<close>

text \<open>
  C4, as the code has it. The length check of \<open>get\<close> compares the decoded blob with the
  length of the IV alone, and its result is \<^verbatim>\<open>null\<close>, not an error: a blob that decodes
  to fewer than 12 bytes makes \<open>get\<close> return \<^verbatim>\<open>null\<close>. A blob of 12 to 27 bytes is split
  and handed to the cipher; when the cipher rejects it with an exception of \<open>get\<close>'s catch
  clause, \<open>get\<close> returns \<^verbatim>\<open>null\<close> again. In neither case is an error raised.
\<close>

theorem get_short_blob_is_null:
  "(sharedPreferences this k = Some b \<and> Base64_decode P b = Inr combined
      \<and> length combined < GCM_IV_LENGTH \<longrightarrow>
        get_android P this k = (Inr None, this))
   \<and> (sharedPreferences this k = Some b \<and> Base64_decode P b = Inr combined
      \<and> GCM_IV_LENGTH \<le> length combined
      \<and> length combined < GCM_IV_LENGTH + GCM_TAG_LENGTH div 8
      \<and> keyStore this = Inr secretKey
      \<and> Cipher_decrypt P secretKey (take GCM_IV_LENGTH combined) (drop GCM_IV_LENGTH combined) = Inl e
      \<and> get_catches e \<longrightarrow>
        get_android P this k = (Inr None, this))"
proof -
  have guard: "get_android P this k = (Inr None, this)"
    if "sharedPreferences this k = Some b" "Base64_decode P b = Inr combined"
       "length combined < GCM_IV_LENGTH"
    using that by (simp add: get_android_def get_try_def)
  from guard get_android_caught [of this k b P combined secretKey e]
  show ?thesis by blast
qed

text \<open>The two blobs of \<open>short_storage\<close>: 3 bytes under \<open>token\<close>, 16 bytes under \<open>other\<close>.\<close>

theorem get_short_blob_is_null_witness:
  "get_android ref_platform short_storage ''token'' = (Inr None, short_storage)
   \<and> get_android ref_platform short_storage ''other'' = (Inr None, short_storage)"
proof -
  let ?b3 = "''AQID\<newline>''" and ?b16 = "''AQIDBAUGBwgJCgsMDQ4PEA==\<newline>''"
  let ?c3 = "[1, 2, 3] :: bytes"
  let ?c16 = "[1, 2, 3, 4, 5, 6, 7, 8, 9, 10, 11, 12, 13, 14, 15, 16] :: bytes"
  have e3: "sharedPreferences short_storage ''token'' = Some ?b3"
    by (simp add: short_storage_def)
  have d3: "Base64_decode ref_platform ?b3 = Inr ?c3"
    by code_simp
  have l3: "length ?c3 < GCM_IV_LENGTH"
    by (simp add: GCM_IV_LENGTH_def)
  have e16: "sharedPreferences short_storage ''other'' = Some ?b16"
    by (simp add: short_storage_def)
  have d16: "Base64_decode ref_platform ?b16 = Inr ?c16"
    by code_simp
  have l16: "GCM_IV_LENGTH \<le> length ?c16"
    by (simp add: GCM_IV_LENGTH_def)
  have u16: "length ?c16 < GCM_IV_LENGTH + GCM_TAG_LENGTH div 8"
    by (simp add: GCM_IV_LENGTH_def GCM_TAG_LENGTH_def)
  have key: "keyStore short_storage = Inr (Some (KeyHandle 7))"
    by (simp add: short_storage_def)
  have dec: "Cipher_decrypt ref_platform (Some (KeyHandle 7))
               (take GCM_IV_LENGTH ?c16) (drop GCM_IV_LENGTH ?c16) = Inl AEADBadTagException"
    by code_simp
  have caught: "get_catches AEADBadTagException"
    by simp
  from get_short_blob_is_null
         [where this = short_storage and k = "''token''" and P = ref_platform and b = ?b3
            and combined = ?c3] e3 d3 l3
       get_short_blob_is_null
         [where this = short_storage and k = "''other''" and P = ref_platform and b = ?b16
            and combined = ?c16 and secretKey = "Some (KeyHandle 7)" and e = AEADBadTagException]
         e16 d16 l16 u16 key dec caught
  show ?thesis by blast
qed

text \<open>
  The claim as stated fails on \<open>short_storage\<close>: the blobs decode to 3 and to 16 bytes, both
  fewer than 12 + 16, and \<open>get\<close> returns \<^verbatim>\<open>null\<close> for both; the plugin resolves the call.
\<close>

theorem get_short_blob_counterexample:
  "Base64_decode ref_platform ''AQID\<newline>'' = Inr [1, 2, 3]
   \<and> fst (get_android ref_platform short_storage ''token'') = Inr None
   \<and> fst (plugin_get_android ref_platform short_storage (Some ''token'')) = Resolve_value None
   \<and> Base64_decode ref_platform ''AQIDBAUGBwgJCgsMDQ4PEA==\<newline>''
       = Inr [1, 2, 3, 4, 5, 6, 7, 8, 9, 10, 11, 12, 13, 14, 15, 16]
   \<and> fst (get_android ref_platform short_storage ''other'') = Inr None
   \<and> fst (plugin_get_android ref_platform short_storage (Some ''other'')) = Resolve_value None"
  by code_simp

section \<open>C5: setting the null value\<close>

text \<open>
  C5. On the Android engine, \<open>set(k, null)\<close> is \<open>remove(k)\<close>: for every platform, object,
  key and IV the two calls have the same outcome and leave the same object, namely the
  object whose preferences have lost the entry of \<open>k\<close> and kept every other entry. Nothing
  is encrypted or written: the result does not mention the platform, the KeyStore or the IV.
\<close>

theorem set_null_is_remove:
  "set_android P this k None iv = remove_android this k
   \<and> set_android P this k None iv =
       (Inr (), this\<lparr>sharedPreferences := (sharedPreferences this)(k := None)\<rparr>)"
  by (simp add: set_android_def remove_android_def)

section \<open>C6: what a set leaves behind\<close>




section \<open>C7: removing a key that is not there\<close>

text \<open>
  C7. \<open>remove(k)\<close> on a key that has no entry succeeds and leaves the store as it was, and a
  second \<open>remove(k)\<close> right after a first one succeeds and changes nothing more. On iOS the
  status \<open>errSecItemNotFound\<close> counts as success; the Keychain is taken to answer the calls.
\<close>

theorem remove_absent_is_noop:
  assumes "sharedPreferences this k = None" and "kc k = None"
  shows "remove_android this k = (Inr (), this)
       \<and> remove_android (snd (remove_android that k)) k = remove_android that k
       \<and> remove_ios kc k False = (True, kc)
       \<and> remove_ios (snd (remove_ios kc' k False)) k False = (True, snd (remove_ios kc' k False))"
proof -
  have "(sharedPreferences this)(k := None) = sharedPreferences this"
    using assms(1) by (simp add: fun_upd_idem_iff)
  then have once: "remove_android this k = (Inr (), this)"
    by (simp add: remove_android_def)
  have twice: "remove_android (snd (remove_android that k)) k = remove_android that k"
    by (simp add: remove_android_def)
  have once_ios: "remove_ios kc k False = (True, kc)"
    using assms(2) by (simp add: remove_ios_def SecItemDelete_def)
  have twice_ios:
    "remove_ios (snd (remove_ios kc' k False)) k False = (True, snd (remove_ios kc' k False))"
    by (simp add: remove_ios_def SecItemDelete_def split: option.splits)
  from once twice once_ios twice_ios show ?thesis by blast
qed

theorem remove_absent_is_noop_witness:
  "remove_android fresh_storage ''token'' = (Inr (), fresh_storage)
   \<and> remove_android (snd (remove_android tampered_storage ''token'')) ''token''
       = remove_android tampered_storage ''token''
   \<and> remove_ios Map.empty ''token'' False = (True, Map.empty)
   \<and> remove_ios (snd (remove_ios [''token'' \<mapsto> [111, 108, 100]] ''token'' False)) ''token'' False
       = (True, snd (remove_ios [''token'' \<mapsto> [111, 108, 100]] ''token'' False))"
proof -
  have absent: "sharedPreferences fresh_storage ''token'' = None"
    by (simp add: fresh_storage_def)
  have absent_ios: "(Map.empty :: Keychain) ''token'' = None"
    by simp
  show ?thesis
    by (rule remove_absent_is_noop [OF absent absent_ios])
qed

section \<open>C8: the keys after two sets and after a clear\<close>

text \<open>
  C8. From an empty store, after \<open>set("a", "1")\<close> and \<open>set("b", "2")\<close> the operation
  \<open>keys()\<close> returns the set of the two keys \<open>a\<close> and \<open>b\<close>; after \<open>clear()\<close> it returns the
  empty set, whatever the store held. On Android the two sets are taken to succeed: the
  KeyStore returns the master key, the cipher encrypts, the IVs have at least twelve bytes.
  On iOS the Keychain is taken to answer every call and the two values to have UTF-8 data.
\<close>

theorem keys_after_sets_and_clear:
  assumes "keyStore this = Inr secretKey"
    and "sharedPreferences this = Map.empty"
    and "GCM_IV_LENGTH \<le> length iv1" and "GCM_IV_LENGTH \<le> length iv2"
    and "Cipher_encrypt P secretKey iv1 (getBytes P ''1'') = Inr c1"
    and "Cipher_encrypt P secretKey iv2 (getBytes P ''2'') = Inr c2"
    and "data_utf8 F ''1'' = Some d1"
    and "data_utf8 F ''2'' = Some d2"
  shows "fst (keys_android (snd (set_android P (snd (set_android P this ''a'' (Some ''1'') iv1))
                                   ''b'' (Some ''2'') iv2))) = Inr {''a'', ''b''}
       \<and> fst (keys_android (snd (clear_android that))) = Inr {}
       \<and> fst (keys_ios (snd (set_ios F (snd (set_ios F Map.empty ''a'' ''1'' False False))
                                   ''b'' ''2'' False False)) False) = {''a'', ''b''}
       \<and> fst (keys_ios (snd (clear_ios kc False)) False) = {}"
proof -
  let ?b1 = "Base64_encodeToString P (take GCM_IV_LENGTH iv1 @ c1)"
  let ?b2 = "Base64_encodeToString P (take GCM_IV_LENGTH iv2 @ c2)"
  let ?s1 = "this\<lparr>sharedPreferences := (sharedPreferences this)(''a'' \<mapsto> ?b1)\<rparr>"
  have s1: "set_android P this ''a'' (Some ''1'') iv1 = (Inr (), ?s1)"
    by (rule set_android_stores [OF assms(1) assms(5) assms(3)])
  have "keyStore ?s1 = Inr secretKey"
    using assms(1) by simp
  from set_android_stores [OF this assms(6) assms(4), of "''b''"]
  have s2: "sharedPreferences (snd (set_android P ?s1 ''b'' (Some ''2'') iv2))
              = [''a'' \<mapsto> ?b1, ''b'' \<mapsto> ?b2]"
    using assms(2) by simp
  have android: "fst (keys_android (snd (set_android P (snd (set_android P this ''a'' (Some ''1'') iv1))
                                   ''b'' (Some ''2'') iv2))) = Inr {''a'', ''b''}"
    unfolding s1 snd_conv keys_android_def fst_conv s2 by auto
  have android_clear: "fst (keys_android (snd (clear_android that))) = Inr {}"
    by (simp add: keys_android_def clear_android_def)
  have i1: "set_ios F Map.empty ''a'' ''1'' False False = (True, [''a'' \<mapsto> d1])"
    using assms(7) by (simp add: set_ios_def SecItemDelete_def SecItemAdd_def)
  have i2: "set_ios F [''a'' \<mapsto> d1] ''b'' ''2'' False False
              = (True, [''a'' \<mapsto> d1, ''b'' \<mapsto> d2])"
    using assms(8) by (simp add: set_ios_def SecItemDelete_def SecItemAdd_def)
  have ne: "[''a'' \<mapsto> d1, ''b'' \<mapsto> d2] \<noteq> Map.empty"
    by simp
  have ios: "fst (keys_ios (snd (set_ios F (snd (set_ios F Map.empty ''a'' ''1'' False False))
                                   ''b'' ''2'' False False)) False) = {''a'', ''b''}"
    unfolding i1 snd_conv i2 using ne by (auto simp: keys_ios_def SecItemCopyMatching_all_def)
  have ios_clear: "fst (keys_ios (snd (clear_ios kc False)) False) = {}"
    by (simp add: keys_ios_def clear_ios_def SecItemCopyMatching_all_def SecItemDelete_all_def)
  from android android_clear ios ios_clear show ?thesis by blast
qed

theorem keys_after_sets_and_clear_witness:
  "fst (keys_android (snd (set_android ref_platform
          (snd (set_android ref_platform fresh_storage ''a'' (Some ''1'') iv_a))
          ''b'' (Some ''2'') iv_b))) = Inr {''a'', ''b''}
   \<and> fst (keys_android (snd (clear_android short_storage))) = Inr {}
   \<and> fst (keys_ios (snd (set_ios ref_foundation
          (snd (set_ios ref_foundation Map.empty ''a'' ''1'' False False))
          ''b'' ''2'' False False)) False) = {''a'', ''b''}
   \<and> fst (keys_ios (snd (clear_ios [''token'' \<mapsto> [111, 108, 100]] False)) False) = {}"
proof -
  have key: "keyStore fresh_storage = Inr (Some (KeyHandle 7))"
    by (simp add: fresh_storage_def)
  have empty: "sharedPreferences fresh_storage = Map.empty"
    by (simp add: fresh_storage_def)
  have len1: "GCM_IV_LENGTH \<le> length iv_a"
    by (simp add: iv_a_def GCM_IV_LENGTH_def)
  have len2: "GCM_IV_LENGTH \<le> length iv_b"
    by (simp add: iv_b_def GCM_IV_LENGTH_def)
  obtain c1 where enc1:
    "Cipher_encrypt ref_platform (Some (KeyHandle 7)) iv_a (getBytes ref_platform ''1'') = Inr c1"
    by (simp add: ref_platform_def Let_def)
  obtain c2 where enc2:
    "Cipher_encrypt ref_platform (Some (KeyHandle 7)) iv_b (getBytes ref_platform ''2'') = Inr c2"
    by (simp add: ref_platform_def Let_def)
  have dat1: "data_utf8 ref_foundation ''1'' = Some (ref_getBytes ''1'')"
    by (simp add: ref_foundation_def)
  have dat2: "data_utf8 ref_foundation ''2'' = Some (ref_getBytes ''2'')"
    by (simp add: ref_foundation_def)
  show ?thesis
    by (rule keys_after_sets_and_clear [OF key empty len1 len2 enc1 enc2 dat1 dat2])
qed

section \<open>C9: two nonces, two blobs\<close>

text \<open>
  C9. Two successive calls \<open>set(k, v)\<close> with the same value whose ciphers drew different
  IVs store different blobs: the first twelve bytes of what is encoded are the IV. The IVs
  have twelve bytes, the KeyStore returns the master key, the cipher encrypts, and Base64
  decodes the two blobs it encoded. That two draws of the IV differ is the platform's part
  and is the hypothesis here.
\<close>

theorem distinct_nonces_distinct_blobs:
  assumes "keyStore this = Inr secretKey"
    and "length iv1 = GCM_IV_LENGTH" and "length iv2 = GCM_IV_LENGTH"
    and "iv1 \<noteq> iv2"
    and "Cipher_encrypt P secretKey iv1 (getBytes P v) = Inr c1"
    and "Cipher_encrypt P secretKey iv2 (getBytes P v) = Inr c2"
    and "Base64_decode P (Base64_encodeToString P (iv1 @ c1)) = Inr (iv1 @ c1)"
    and "Base64_decode P (Base64_encodeToString P (iv2 @ c2)) = Inr (iv2 @ c2)"
  shows "sharedPreferences (snd (set_android P this k (Some v) iv1)) k
           = Some (Base64_encodeToString P (iv1 @ c1))
       \<and> sharedPreferences (snd (set_android P (snd (set_android P this k (Some v) iv1)) k (Some v) iv2)) k
           = Some (Base64_encodeToString P (iv2 @ c2))
       \<and> Base64_encodeToString P (iv1 @ c1) \<noteq> Base64_encodeToString P (iv2 @ c2)"
proof -
  let ?b1 = "Base64_encodeToString P (iv1 @ c1)" and ?b2 = "Base64_encodeToString P (iv2 @ c2)"
  let ?s1 = "this\<lparr>sharedPreferences := (sharedPreferences this)(k \<mapsto> ?b1)\<rparr>"
  have s1: "set_android P this k (Some v) iv1 = (Inr (), ?s1)"
    using set_android_stores [OF assms(1) assms(5), of k] assms(2) by simp
  have "keyStore ?s1 = Inr secretKey"
    using assms(1) by simp
  from set_android_stores [OF this, of P iv2 v c2 k] assms(3,6)
  have s2: "sharedPreferences (snd (set_android P ?s1 k (Some v) iv2)) k = Some ?b2"
    by simp
  have "?b1 \<noteq> ?b2"
  proof
    assume "?b1 = ?b2"
    then have "Base64_decode P ?b1 = Base64_decode P ?b2" by simp
    then have "iv1 @ c1 = iv2 @ c2" using assms(7,8) by simp
    then have "iv1 = iv2" using assms(2,3) by simp
    with assms(4) show False by contradiction
  qed
  with s1 s2 show ?thesis by simp
qed

theorem distinct_nonces_distinct_blobs_witness:
  "sharedPreferences (snd (set_android ref_platform fresh_storage ''token'' (Some ''abc123'') iv_a))
     ''token''
     = Some ''AQIDBAUGBwgJCgsMamloOjk48fLz9PX29/j5+vv8/f7/AA==\<newline>''
   \<and> sharedPreferences (snd (set_android ref_platform
        (snd (set_android ref_platform fresh_storage ''token'' (Some ''abc123'') iv_a))
        ''token'' (Some ''abc123'') iv_b)) ''token''
     = Some ''FRYXGBkaGxwdHh8gUlFQAgEAKSorLC0uLzAxMjM0NTY3OA==\<newline>''"
proof -
  let ?c1 = "[106, 105, 104, 58, 57, 56, 241, 242, 243, 244, 245, 246, 247, 248,
              249, 250, 251, 252, 253, 254, 255, 0] :: bytes"
  let ?c2 = "[82, 81, 80, 2, 1, 0, 41, 42, 43, 44, 45, 46, 47, 48, 49, 50, 51, 52,
              53, 54, 55, 56] :: bytes"
  have key: "keyStore fresh_storage = Inr (Some (KeyHandle 7))"
    by (simp add: fresh_storage_def)
  have len1: "length iv_a = GCM_IV_LENGTH"
    by (simp add: iv_a_def GCM_IV_LENGTH_def)
  have len2: "length iv_b = GCM_IV_LENGTH"
    by (simp add: iv_b_def GCM_IV_LENGTH_def)
  have diff: "iv_a \<noteq> iv_b"
    by (simp add: iv_a_def iv_b_def)
  have enc1: "Cipher_encrypt ref_platform (Some (KeyHandle 7)) iv_a (getBytes ref_platform ''abc123'') = Inr ?c1"
    by code_simp
  have enc2: "Cipher_encrypt ref_platform (Some (KeyHandle 7)) iv_b (getBytes ref_platform ''abc123'') = Inr ?c2"
    by code_simp
  have b1: "Base64_decode ref_platform (Base64_encodeToString ref_platform (iv_a @ ?c1)) = Inr (iv_a @ ?c1)"
    by code_simp
  have b2: "Base64_decode ref_platform (Base64_encodeToString ref_platform (iv_b @ ?c2)) = Inr (iv_b @ ?c2)"
    by code_simp
  have t1: "Base64_encodeToString ref_platform (iv_a @ ?c1)
              = ''AQIDBAUGBwgJCgsMamloOjk48fLz9PX29/j5+vv8/f7/AA==\<newline>''"
    by code_simp
  have t2: "Base64_encodeToString ref_platform (iv_b @ ?c2)
              = ''FRYXGBkaGxwdHh8gUlFQAgEAKSorLC0uLzAxMjM0NTY3OA==\<newline>''"
    by code_simp
  from distinct_nonces_distinct_blobs [OF key len1 len2 diff enc1 enc2 b1 b2, of "''token''"]
  show ?thesis unfolding t1 t2 by blast
qed

section \<open>C10: other keys are left alone\<close>

text \<open>
  C10. An operation on the key \<open>k\<close> leaves the entry of every other key \<open>k'\<close> as it was:
  \<open>set(k, v)\<close>, for every value and also for \<^verbatim>\<open>null\<close>, and \<open>remove(k)\<close> do not change what
  is stored under \<open>k'\<close>, whether they succeed or fail; \<open>get(k)\<close> and \<open>keys()\<close> leave the whole
  store unchanged. This holds on both engines and for every platform.
\<close>

theorem operations_touch_own_key:
  assumes "k' \<noteq> k"
  shows "sharedPreferences (snd (set_android P this k value iv)) k' = sharedPreferences this k'
       \<and> sharedPreferences (snd (remove_android this k)) k' = sharedPreferences this k'
       \<and> snd (get_android P this k) = this
       \<and> snd (keys_android this) = this
       \<and> snd (set_ios F kc k v fd fa) k' = kc k'
       \<and> snd (remove_ios kc k fd) k' = kc k'
       \<and> snd (get_ios F kc k fc) = kc
       \<and> snd (keys_ios kc fc) = kc"
proof -
  have set_a: "sharedPreferences (snd (set_android P this k value iv)) k' = sharedPreferences this k'"
    using assms
    by (auto simp: set_android_def set_try_def remove_android_def Let_def
             split: option.splits sum.splits)
  have remove_a: "sharedPreferences (snd (remove_android this k)) k' = sharedPreferences this k'"
    using assms by (simp add: remove_android_def)
  have keys_a: "snd (keys_android this) = this"
    by (simp add: keys_android_def)
  have set_i: "snd (set_ios F kc k v fd fa) k' = kc k'"
    using assms
    by (auto simp: set_ios_def SecItemDelete_def SecItemAdd_def split: option.splits)
  have remove_i: "snd (remove_ios kc k fd) k' = kc k'"
    using assms by (auto simp: remove_ios_def SecItemDelete_def split: option.splits)
  have get_i: "snd (get_ios F kc k fc) = kc"
    by (auto simp: get_ios_def SecItemCopyMatching_def split: option.splits)
  have keys_i: "snd (keys_ios kc fc) = kc"
    by (auto simp: keys_ios_def SecItemCopyMatching_all_def)
  from set_a remove_a keys_a set_i remove_i get_i keys_i get_android_readonly [of P this k]
  show ?thesis by blast
qed

theorem operations_touch_own_key_witness:
  "sharedPreferences (snd (set_android ref_platform short_storage ''token'' (Some ''abc123'') iv_a))
     ''other'' = sharedPreferences short_storage ''other''
   \<and> sharedPreferences (snd (remove_android short_storage ''token'')) ''other''
       = sharedPreferences short_storage ''other''
   \<and> snd (get_android ref_platform short_storage ''token'') = short_storage
   \<and> snd (keys_android short_storage) = short_storage
   \<and> snd (set_ios ref_foundation [''other'' \<mapsto> [111, 108, 100]] ''token'' ''abc123'' False False)
       ''other'' = [''other'' \<mapsto> [111, 108, 100]] ''other''
   \<and> snd (remove_ios [''other'' \<mapsto> [111, 108, 100]] ''token'' False) ''other''
       = [''other'' \<mapsto> [111, 108, 100]] ''other''
   \<and> snd (get_ios ref_foundation [''other'' \<mapsto> [111, 108, 100]] ''token'' False)
       = [''other'' \<mapsto> [111, 108, 100]]
   \<and> snd (keys_ios [''other'' \<mapsto> [111, 108, 100]] False) = [''other'' \<mapsto> [111, 108, 100]]"
proof -
  have distinct: "''other'' \<noteq> ''token''"
    by simp
  show ?thesis
    by (rule operations_touch_own_key [OF distinct])
qed

end
